theory Spec2Isabelle
  imports Main
begin

section \<open>Python strings\<close>

text \<open>
  A Python \<open>str\<close> is a sequence of Unicode code points; it is modelled as a list of
  natural numbers, one per code point. \<open>str\<close> embeds an ASCII literal.
\<close>

type_synonym pystr = "nat list"

definition str :: "string \<Rightarrow> pystr" where
  "str s = map of_char s"

text \<open>The em dash U+2014 used by the placeholders and by the artist/title separator.\<close>

definition EM_DASH :: nat where
  "EM_DASH = 8212"

text \<open>
  \<open>str.isspace\<close> of one code point: the code points CPython treats as whitespace,
  which are the ones \<open>str.strip()\<close> removes.
\<close>

definition isspace :: "nat \<Rightarrow> bool" where
  "isspace c \<longleftrightarrow>
     (9 \<le> c \<and> c \<le> 13) \<or> (28 \<le> c \<and> c \<le> 32) \<or> c = 133 \<or> c = 160 \<or> c = 5760 \<or>
     (8192 \<le> c \<and> c \<le> 8202) \<or> c = 8232 \<or> c = 8233 \<or> c = 8239 \<or> c = 8287 \<or> c = 12288"

definition strip :: "pystr \<Rightarrow> pystr" where
  "strip s = rev (dropWhile isspace (rev (dropWhile isspace s)))"

text \<open>\<open>x or ""\<close> for a value that is a string or \<open>None\<close>.\<close>

definition or_empty :: "pystr option \<Rightarrow> pystr" where
  "or_empty x = (case x of None \<Rightarrow> [] | Some s \<Rightarrow> s)"

section \<open>The environment: files, tmux, and the trace of effects\<close>

text \<open>
  File names. \<open>~\<close> stands for the user's home directory as \<open>os.path.expanduser\<close>
  resolves it when the module is loaded.
\<close>

definition CONFIG_DIR :: pystr where
  "CONFIG_DIR = str ''~/.config/radiodigger''"

definition CACHE_DIR :: pystr where
  "CACHE_DIR = str ''~/.cache/radiodigger''"

definition FAV_FILE :: pystr where
  "FAV_FILE = CONFIG_DIR @ str ''/favorites.json''"

definition STATE_FILE :: pystr where
  "STATE_FILE = CONFIG_DIR @ str ''/state.json''"

definition VOL_FILE :: pystr where
  "VOL_FILE = CONFIG_DIR @ str ''/volumes.json''"

definition NOWPLAY_FILE :: pystr where
  "NOWPLAY_FILE = CACHE_DIR @ str ''/now_playing.txt''"

text \<open>
  Every effect outside the process, and every acquisition and release of the
  \<open>NowPlaying\<close> lock, is appended to a trace in program order.
\<close>

datatype event =
    LockAcquire
  | LockRelease
  | MakeDirs pystr
  | OpenWrite pystr
  | WriteText pystr pystr
  | Rename pystr pystr
  | RunTmux pystr

text \<open>
  Where a \<open>save_json\<close> call breaks: \<open>open\<close> of the temporary file raises;
  \<open>json.dump\<close> raises when so many characters have reached the file; \<open>os.replace\<close>
  raises.
\<close>

datatype save_fault = OpenFails | DumpFails nat | ReplaceFails

text \<open>
  The world outside the process: the files (name to content); whether the cache
  directory can be created, whether the now-playing file can be opened for writing and
  whether writing to it then succeeds; whether \<open>TMUX\<close> is set and a \<open>tmux\<close> binary is
  on the path, whether running it succeeds, and the tmux user option; for each file
  whether and where saving it breaks; and the trace.
\<close>

record world =
  files :: "pystr \<Rightarrow> pystr option"
  makedirs_ok :: bool
  nowplay_writable :: bool
  nowplay_write_ok :: bool
  tmux_present :: bool
  tmux_run_ok :: bool
  tmux_option :: "pystr option"
  save_faults :: "pystr \<Rightarrow> save_fault option"
  events :: "event list"

text \<open>How a call ends: with a returned value or with an exception.\<close>

datatype exn = FileNotFoundError | JSONDecodeError | EngineError | AttributeError | OSError

datatype 'a outcome = Returned 'a | Raised exn

definition emit :: "event \<Rightarrow> world \<Rightarrow> world" where
  "emit e w = w\<lparr>events := events w @ [e]\<rparr>"

section \<open>Now-playing state and metadata history\<close>

record nowplaying =
  station_name :: pystr
  stationuuid :: "pystr option"
  line :: pystr
  history :: "pystr list"
  max_history :: nat

text \<open>\<open>NowPlaying.__init__\<close>.\<close>

definition NowPlaying_init :: nowplaying where
  "NowPlaying_init =
     \<lparr>station_name = [EM_DASH], stationuuid = None, line = [EM_DASH], history = [],
      max_history = 200\<rparr>"

text \<open>
  \<open>NowPlaying._write_nowplay\<close>, in two parts: the world it leaves, and how it ends.
  It creates the cache directory; \<open>os.makedirs\<close> is outside every \<open>try\<close>, so when it
  raises the call ends there with that exception. Otherwise it opens the now-playing
  file for writing and writes \<open>station :: line\<close>; a failure to open leaves the file as
  it was, a failure to write leaves it empty as \<open>open\<close> made it, and both are
  swallowed. Then, under tmux, it runs \<open>tmux set -gq @radiodigger_now_playing\<close> with
  the first 200 code points; a failure of that is swallowed too.
\<close>

definition write_nowplay :: "nowplaying \<Rightarrow> world \<Rightarrow> world" where
  "write_nowplay np w =
     (let out = strip (station_name np @ str '' :: '' @ line np);
          w1 = emit (MakeDirs CACHE_DIR) w
      in if \<not> makedirs_ok w1 then w1
         else
           let w2 = emit (OpenWrite NOWPLAY_FILE) w1;
               w3 = (if nowplay_writable w2
                     then if nowplay_write_ok w2
                          then emit (WriteText NOWPLAY_FILE (out @ [10]))
                                 (w2\<lparr>files := (files w2)(NOWPLAY_FILE \<mapsto> out @ [10])\<rparr>)
                          else w2\<lparr>files := (files w2)(NOWPLAY_FILE \<mapsto> [])\<rparr>
                     else w2)
           in if tmux_present w3
              then emit (RunTmux (take 200 out))
                     (if tmux_run_ok w3 then w3\<lparr>tmux_option := Some (take 200 out)\<rparr> else w3)
              else w3)"

definition write_nowplay_outcome :: "world \<Rightarrow> unit outcome" where
  "write_nowplay_outcome w = (if makedirs_ok w then Returned () else Raised OSError)"

text \<open>
  \<open>NowPlaying.set_station\<close>; \<open>name or "Unknown"\<close> replaces \<open>None\<close> and the empty
  string. The first function gives the state and the world the call leaves, whether it
  returns or raises: the fields are assigned before \<open>_write_nowplay\<close> runs, and the
  \<open>with\<close> block releases the lock on either way out. The second says how the call
  ends.
\<close>

definition set_station ::
  "pystr option \<Rightarrow> pystr option \<Rightarrow> nowplaying \<times> world \<Rightarrow> nowplaying \<times> world" where
  "set_station name uuid s =
     (case s of (np, w) \<Rightarrow>
        let w1 = emit LockAcquire w;
            np' = np\<lparr>station_name := (if or_empty name = [] then str ''Unknown'' else or_empty name),
                     stationuuid := uuid\<rparr>;
            w2 = write_nowplay np' w1
        in (np', emit LockRelease w2))"

definition set_station_outcome :: "nowplaying \<times> world \<Rightarrow> unit outcome" where
  "set_station_outcome s = write_nowplay_outcome (snd s)"

text \<open>
  \<open>NowPlaying.update_line\<close>, in the same two parts: the state and the world the call
  leaves, and how it ends.
\<close>

definition update_line :: "pystr option \<Rightarrow> nowplaying \<times> world \<Rightarrow> nowplaying \<times> world" where
  "update_line text s =
     (case s of (np, w) \<Rightarrow>
        let l = strip (or_empty text)
        in if l = [] then (np, w)
           else let w1 = emit LockAcquire w
                in if l \<noteq> line np
                   then let np' = np\<lparr>line := l,
                                     history := take (max_history np) (l # history np)\<rparr>
                        in (np', emit LockRelease (write_nowplay np' w1))
                   else (np, emit LockRelease w1))"

definition update_line_outcome :: "pystr option \<Rightarrow> nowplaying \<times> world \<Rightarrow> unit outcome" where
  "update_line_outcome text s =
     (let l = strip (or_empty text)
      in if l = [] then Returned ()
         else if l \<noteq> line (fst s) then write_nowplay_outcome (snd s) else Returned ())"

text \<open>\<open>NowPlaying.snapshot\<close>: the returned history is a copy, here the value itself.\<close>

definition snapshot ::
  "nowplaying \<times> world \<Rightarrow> (pystr \<times> pystr \<times> pystr list) \<times> (nowplaying \<times> world)" where
  "snapshot s =
     (case s of (np, w) \<Rightarrow>
        ((station_name np, line np, history np), (np, emit LockRelease (emit LockAcquire w))))"

text \<open>A sequence of \<open>update_line\<close> calls, first call first.\<close>

definition update_lines :: "pystr option list \<Rightarrow> nowplaying \<times> world \<Rightarrow> nowplaying \<times> world" where
  "update_lines ts s = fold update_line ts s"

text \<open>The invariant of the history that \<open>update_line\<close> maintains.\<close>

definition history_inv :: "nowplaying \<Rightarrow> bool" where
  "history_inv np \<longleftrightarrow>
     max_history np = 200 \<and> length (history np) \<le> 200 \<and> distinct_adj (history np) \<and>
     (history np \<noteq> [] \<longrightarrow> line np = hd (history np))"

section \<open>Lock discipline on the trace\<close>

text \<open>Events that are input or output, as opposed to lock operations.\<close>

fun is_io :: "event \<Rightarrow> bool" where
  "is_io LockAcquire = False"
| "is_io LockRelease = False"
| "is_io (MakeDirs d) = True"
| "is_io (OpenWrite p) = True"
| "is_io (WriteText p t) = True"
| "is_io (Rename p q) = True"
| "is_io (RunTmux t) = True"

text \<open>
  \<open>io_under_lock held es\<close>: some input or output event of \<open>es\<close> happens while the lock
  is held, where \<open>held\<close> says whether it is held at the start.
\<close>

fun io_under_lock :: "bool \<Rightarrow> event list \<Rightarrow> bool" where
  "io_under_lock held [] = False"
| "io_under_lock held (e # es) =
     (if e = LockAcquire then io_under_lock True es
      else if e = LockRelease then io_under_lock False es
      else (held \<and> is_io e) \<or> io_under_lock held es)"

text \<open>The events a call appended to the trace, given the world before and after it.\<close>

definition emitted :: "world \<Rightarrow> world \<Rightarrow> event list" where
  "emitted w w' = drop (length (events w)) (events w')"

text \<open>The input and output of one \<open>_write_nowplay\<close> call, in order.\<close>

definition nowplay_io :: "nowplaying \<Rightarrow> world \<Rightarrow> event list" where
  "nowplay_io np w =
     (let out = strip (station_name np @ str '' :: '' @ line np)
      in MakeDirs CACHE_DIR #
         (if \<not> makedirs_ok w then []
          else OpenWrite NOWPLAY_FILE #
               (if nowplay_writable w \<and> nowplay_write_ok w
                then [WriteText NOWPLAY_FILE (out @ [10])] else []) @
               (if tmux_present w then [RunTmux (take 200 out)] else [])))"

section \<open>Metadata extraction\<close>

text \<open>
  The four tags read from the engine's current media; \<open>get_meta\<close> returns a string or
  \<open>None\<close>.
\<close>

record media_meta =
  meta_artist :: "pystr option"
  meta_title :: "pystr option"
  meta_now_playing :: "pystr option"
  meta_description :: "pystr option"

definition NO_METADATA :: pystr where
  "NO_METADATA = str ''Stream (no metadata)''"

text \<open>The line computed in the body of \<open>Player._meta_loop\<close>.\<close>

definition resolve_line :: "media_meta \<Rightarrow> pystr" where
  "resolve_line m =
     (let artist = or_empty (meta_artist m);
          title = or_empty (meta_title m)
      in if artist \<noteq> [] \<and> title \<noteq> [] then artist @ [32, EM_DASH, 32] @ title
         else if title \<noteq> [] then title
         else let np = or_empty (meta_now_playing m);
                  desc = or_empty (meta_description m)
              in if np \<noteq> [] then np else if desc \<noteq> [] then desc else NO_METADATA)"

text \<open>
  What one iteration of the polling loop finds: a call into the engine raised, no media
  is loaded, or the media's tags.
\<close>

datatype poll = PollRaised | NoMedia | Media media_meta

text \<open>
  The \<open>try\<close> block of one iteration of \<open>Player._meta_loop\<close>: an exception of the
  engine and a missing media skip the update, and an exception out of \<open>update_line\<close>
  is swallowed, leaving what \<open>update_line\<close> left.
\<close>

definition meta_tick :: "poll \<Rightarrow> nowplaying \<times> world \<Rightarrow> nowplaying \<times> world" where
  "meta_tick p s =
     (case p of
        PollRaised \<Rightarrow> s
      | NoMedia \<Rightarrow> s
      | Media m \<Rightarrow> update_line (Some (resolve_line m)) s)"

text \<open>
  The precedence as the specification words it: the first non-empty candidate wins, the
  joined form being a candidate when both of its parts are present.
\<close>

fun first_nonempty :: "pystr list \<Rightarrow> pystr \<Rightarrow> pystr" where
  "first_nonempty [] d = d"
| "first_nonempty (c # cs) d = (if c \<noteq> [] then c else first_nonempty cs d)"

definition spec_candidates :: "media_meta \<Rightarrow> pystr list" where
  "spec_candidates m =
     [if or_empty (meta_artist m) \<noteq> [] \<and> or_empty (meta_title m) \<noteq> []
      then or_empty (meta_artist m) @ [32, EM_DASH, 32] @ or_empty (meta_title m) else [],
      or_empty (meta_title m),
      or_empty (meta_now_playing m),
      or_empty (meta_description m)]"

section \<open>Persisted files\<close>

text \<open>
  The values \<open>json\<close> reads and writes. Numbers are the integers; the program stores no
  others. A dictionary keeps its keys in insertion order.
\<close>

datatype json =
    JNull
  | JBool bool
  | JInt int
  | JStr pystr
  | JList "json list"
  | JDict "(pystr \<times> json) list"

text \<open>
  The serialiser and the parser of Python's \<open>json\<close> module are taken as given:
  \<open>dumps\<close> is the text \<open>json.dump(data, f, indent=2)\<close> writes, \<open>loads\<close> is
  \<open>json.load\<close>, with \<open>None\<close> where it raises.
\<close>

record codec =
  dumps :: "json \<Rightarrow> pystr"
  loads :: "pystr \<Rightarrow> json option"

text \<open>\<open>open(path)\<close> followed by reading the whole file.\<close>

definition open_read :: "world \<Rightarrow> pystr \<Rightarrow> exn + pystr" where
  "open_read w path = (case files w path of None \<Rightarrow> Inl FileNotFoundError | Some t \<Rightarrow> Inr t)"

definition json_load :: "codec \<Rightarrow> pystr \<Rightarrow> exn + json" where
  "json_load c t = (case loads c t of None \<Rightarrow> Inl JSONDecodeError | Some j \<Rightarrow> Inr j)"

text \<open>The \<open>try\<close> block of \<open>load_json\<close>.\<close>

definition load_json_try :: "codec \<Rightarrow> world \<Rightarrow> pystr \<Rightarrow> exn + json" where
  "load_json_try c w path =
     (case open_read w path of Inl e \<Rightarrow> Inl e | Inr t \<Rightarrow> json_load c t)"

text \<open>\<open>load_json\<close>: any exception of the \<open>try\<close> block gives the default.\<close>

definition load_json :: "codec \<Rightarrow> world \<Rightarrow> pystr \<Rightarrow> json \<Rightarrow> json" where
  "load_json c w path dflt =
     (case load_json_try c w path of Inl e \<Rightarrow> dflt | Inr j \<Rightarrow> j)"

text \<open>The file is missing, or its content does not parse.\<close>

definition unreadable :: "codec \<Rightarrow> world \<Rightarrow> pystr \<Rightarrow> bool" where
  "unreadable c w path \<longleftrightarrow>
     (case files w path of None \<Rightarrow> True | Some t \<Rightarrow> loads c t = None)"

text \<open>
  The defaults the program passes, and the three loads as \<open>Player.__init__\<close> and
  \<open>station_browser\<close> make them.
\<close>

definition DEFAULT_STATE :: json where
  "DEFAULT_STATE =
     JDict [(str ''last_stationuuid'', JNull), (str ''show_history'', JBool True)]"

definition load_favs :: "codec \<Rightarrow> world \<Rightarrow> json" where
  "load_favs c w = load_json c w FAV_FILE (JDict [])"

definition load_volumes :: "codec \<Rightarrow> world \<Rightarrow> json" where
  "load_volumes c w = load_json c w VOL_FILE (JDict [])"

definition load_state :: "codec \<Rightarrow> world \<Rightarrow> json" where
  "load_state c w = load_json c w STATE_FILE DEFAULT_STATE"

text \<open>\<open>d.get(key)\<close> on a loaded value: a dictionary answers, anything else has no \<open>get\<close>.\<close>

definition json_get :: "json \<Rightarrow> pystr \<Rightarrow> exn + json" where
  "json_get j k =
     (case j of
        JDict kvs \<Rightarrow> (case map_of kvs k of None \<Rightarrow> Inr JNull | Some v \<Rightarrow> Inr v)
      | _ \<Rightarrow> Inl AttributeError)"

text \<open>\<open>autostart_last\<close>, which loads the state file with a default of its own.\<close>

definition autostart_last :: "codec \<Rightarrow> world \<Rightarrow> exn + json" where
  "autostart_last c w =
     json_get (load_json c w STATE_FILE (JDict [(str ''last_stationuuid'', JNull)]))
       (str ''last_stationuuid'')"

text \<open>The name of the temporary file of \<open>save_json\<close>.\<close>

definition tmp_path :: "pystr \<Rightarrow> pystr" where
  "tmp_path path = path @ str ''.tmp''"

text \<open>
  The directory part of a file name: everything up to and including the last slash
  (code point 47).
\<close>

definition dir_part :: "pystr \<Rightarrow> pystr" where
  "dir_part path = rev (dropWhile (\<lambda>c. c \<noteq> 47) (rev path))"

text \<open>
  \<open>os.replace(src, dst)\<close> for an existing \<open>src\<close>: in one step \<open>dst\<close> gets the content
  of \<open>src\<close>, and \<open>src\<close> is gone.
\<close>

definition replace :: "pystr \<Rightarrow> pystr \<Rightarrow> world \<Rightarrow> world" where
  "replace src dst w =
     emit (Rename src dst) (w\<lparr>files := (files w)(dst := files w src, src := None)\<rparr>)"

text \<open>
  What is on disk while \<open>text\<close> is being written to the freshly opened \<open>tmp\<close>: the file
  is empty after \<open>open(tmp, "w")\<close> and then holds a growing prefix of the text.
\<close>

definition write_prefixes :: "pystr \<Rightarrow> pystr \<Rightarrow> world \<Rightarrow> world list" where
  "write_prefixes tmp text w =
     map (\<lambda>k. w\<lparr>files := (files w)(tmp \<mapsto> take k text)\<rparr>) [0..<Suc (length text)]"

text \<open>
  \<open>save_json\<close>, step by step: every world the file system passes through when no
  operation fails, in order, the last one being the world after \<open>os.replace\<close>. A crash
  leaves one of them behind, a concurrent reader sees one of them, and a call that
  breaks stops at one of them.
\<close>

definition save_json_steps :: "codec \<Rightarrow> pystr \<Rightarrow> json \<Rightarrow> world \<Rightarrow> world list" where
  "save_json_steps c path data w =
     (let tmp = tmp_path path;
          text = dumps c data;
          ws = write_prefixes tmp text (emit (OpenWrite tmp) w);
          w1 = emit (WriteText tmp text) (last ws)
      in ws @ [replace tmp path w1])"

text \<open>
  \<open>save_json\<close>: how the call ends and the world it leaves. Nothing in it is guarded:
  when \<open>open\<close> raises nothing has changed; when \<open>json.dump\<close> raises the temporary
  file holds what was written so far; when \<open>os.replace\<close> raises the temporary file is
  complete and the target untouched.
\<close>

definition save_json :: "codec \<Rightarrow> pystr \<Rightarrow> json \<Rightarrow> world \<Rightarrow> unit outcome \<times> world" where
  "save_json c path data w =
     (let tmp = tmp_path path;
          text = dumps c data;
          w0 = emit (OpenWrite tmp) w;
          ws = write_prefixes tmp text w0
      in case save_faults w path of
           Some OpenFails \<Rightarrow> (Raised OSError, w0)
         | Some (DumpFails k) \<Rightarrow> (Raised OSError, ws ! min k (length text))
         | Some ReplaceFails \<Rightarrow> (Raised OSError, emit (WriteText tmp text) (last ws))
         | None \<Rightarrow> (Returned (), last (save_json_steps c path data w)))"

section \<open>The playback engine\<close>

text \<open>
  Modelled from the spec: the playback engine is the external libVLC media player, whose
  code is not part of the program. Section 6 of the specification gives its
  capabilities: load a URL, play, stop, report whether it is playing, get and set the
  volume, toggle mute. The volume is an integer (libVLC reports a negative value while
  there is no audio output). \<open>eng_fails\<close> says that calls into the engine raise.
\<close>

record engine =
  eng_media :: "pystr option"
  eng_playing :: bool
  eng_volume :: int
  eng_muted :: bool
  eng_fails :: bool

definition eng_stop :: "engine \<Rightarrow> exn + engine" where
  "eng_stop e = (if eng_fails e then Inl EngineError else Inr (e\<lparr>eng_playing := False\<rparr>))"

definition eng_set_media :: "pystr \<Rightarrow> engine \<Rightarrow> exn + engine" where
  "eng_set_media url e =
     (if eng_fails e then Inl EngineError else Inr (e\<lparr>eng_media := Some url\<rparr>))"

definition eng_play :: "engine \<Rightarrow> exn + engine" where
  "eng_play e = (if eng_fails e then Inl EngineError else Inr (e\<lparr>eng_playing := True\<rparr>))"

definition eng_is_playing :: "engine \<Rightarrow> exn + bool" where
  "eng_is_playing e = (if eng_fails e then Inl EngineError else Inr (eng_playing e))"

definition audio_get_volume :: "engine \<Rightarrow> exn + int" where
  "audio_get_volume e = (if eng_fails e then Inl EngineError else Inr (eng_volume e))"

definition audio_set_volume :: "int \<Rightarrow> engine \<Rightarrow> exn + engine" where
  "audio_set_volume v e =
     (if eng_fails e then Inl EngineError else Inr (e\<lparr>eng_volume := v\<rparr>))"

definition audio_toggle_mute :: "engine \<Rightarrow> exn + engine" where
  "audio_toggle_mute e =
     (if eng_fails e then Inl EngineError else Inr (e\<lparr>eng_muted := \<not> eng_muted e\<rparr>))"

section \<open>Player control and per-station volume\<close>

text \<open>
  A station as the search returns it; a field is \<open>None\<close> when the key is missing or
  null.
\<close>

record station =
  st_name :: "pystr option"
  st_country :: "pystr option"
  st_stationuuid :: "pystr option"
  st_url_resolved :: "pystr option"

text \<open>
  The \<open>Player\<close> object with the \<open>NowPlaying\<close> it shares. \<open>volumes\<close> is the dictionary
  from station id to volume that \<open>save_station_volume\<close> maintains, \<open>state\<close> the
  dictionary of the state file.
\<close>

record player =
  now :: nowplaying
  engine :: engine
  volumes :: "(pystr \<times> int) list"
  state :: "(pystr \<times> json) list"
  stop_flag :: bool

definition clamp :: "int \<Rightarrow> int \<Rightarrow> int \<Rightarrow> int" where
  "clamp n lo hi = max lo (min hi n)"

text \<open>\<open>d[k] = v\<close> on a dictionary: an existing key keeps its place, a new one goes last.\<close>

fun dict_set :: "'k \<Rightarrow> 'v \<Rightarrow> ('k \<times> 'v) list \<Rightarrow> ('k \<times> 'v) list" where
  "dict_set k v [] = [(k, v)]"
| "dict_set k v (p # ps) = (if fst p = k then (k, v) # ps else p # dict_set k v ps)"

text \<open>\<open>Player.stop\<close>, \<open>is_playing\<close>, \<open>get_volume\<close>, \<open>set_volume\<close>, \<open>toggle_mute\<close>.\<close>

definition stop :: "player \<Rightarrow> player" where
  "stop p = (case eng_stop (engine p) of Inl e \<Rightarrow> p | Inr e' \<Rightarrow> p\<lparr>engine := e'\<rparr>)"

definition is_playing :: "player \<Rightarrow> bool" where
  "is_playing p = (case eng_is_playing (engine p) of Inl e \<Rightarrow> False | Inr b \<Rightarrow> b)"

definition get_volume :: "player \<Rightarrow> int" where
  "get_volume p = (case audio_get_volume (engine p) of Inl e \<Rightarrow> 0 | Inr v \<Rightarrow> v)"

definition set_volume :: "int \<Rightarrow> player \<Rightarrow> player" where
  "set_volume vol p =
     (case audio_set_volume (clamp vol 0 100) (engine p) of
        Inl e \<Rightarrow> p
      | Inr e' \<Rightarrow> p\<lparr>engine := e'\<rparr>)"

definition toggle_mute :: "player \<Rightarrow> player" where
  "toggle_mute p =
     (case audio_toggle_mute (engine p) of Inl e \<Rightarrow> p | Inr e' \<Rightarrow> p\<lparr>engine := e'\<rparr>)"

text \<open>A station id or \<open>None\<close>, and the two dictionaries, as \<open>json\<close> values.\<close>

definition json_of_uuid :: "pystr option \<Rightarrow> json" where
  "json_of_uuid u = (case u of None \<Rightarrow> JNull | Some s \<Rightarrow> JStr s)"

definition json_of_volumes :: "(pystr \<times> int) list \<Rightarrow> json" where
  "json_of_volumes vs = JDict (map (\<lambda>(k, v). (k, JInt v)) vs)"

text \<open>\<open>Player.save_station_volume\<close>.\<close>

definition save_station_volume ::
  "codec \<Rightarrow> pystr option \<Rightarrow> player \<times> world \<Rightarrow> unit outcome \<times> (player \<times> world)" where
  "save_station_volume c uuid s =
     (case s of (p, w) \<Rightarrow>
        if or_empty uuid = [] then (Returned (), (p, w))
        else let p' = p\<lparr>volumes := dict_set (or_empty uuid) (get_volume p) (volumes p)\<rparr>;
                 (r, w') = save_json c VOL_FILE (json_of_volumes (volumes p')) w
             in (r, (p', w')))"

text \<open>
  \<open>Player.play_station\<close>. Only \<open>stop\<close>, \<open>get_volume\<close> and \<open>set_volume\<close> guard their
  calls, so the call ends with an exception, keeping what was done before it, when
  \<open>set_station\<close> raises, when loading or starting the media raises, and when
  \<open>save_json\<close> raises.
\<close>

definition play_station ::
  "codec \<Rightarrow> station \<Rightarrow> player \<times> world \<Rightarrow> bool outcome \<times> (player \<times> world)" where
  "play_station c st s =
     (case s of (p, w) \<Rightarrow>
        let url = or_empty (st_url_resolved st)
        in if url = [] then (Returned False, (p, w))
           else
             let name = (case st_name st of None \<Rightarrow> str ''Unknown'' | Some n \<Rightarrow> n);
                 uuid = st_stationuuid st;
                 p1 = stop p;
                 (np, w1) = set_station (Some name) uuid (now p1, w);
                 p2 = p1\<lparr>now := np\<rparr>
             in (case set_station_outcome (now p1, w) of
                  Raised e \<Rightarrow> (Raised e, (p2, w1))
                | Returned u \<Rightarrow>
                   (case eng_set_media url (engine p2) of
                      Inl e \<Rightarrow> (Raised e, (p2, w1))
                    | Inr e1 \<Rightarrow>
                       (case eng_play e1 of
                          Inl e \<Rightarrow> (Raised e, (p2\<lparr>engine := e1\<rparr>, w1))
                        | Inr e2 \<Rightarrow>
                           let p3 = p2\<lparr>engine := e2\<rparr>;
                               p4 = (case (if or_empty uuid \<noteq> []
                                           then map_of (volumes p3) (or_empty uuid) else None) of
                                       Some v \<Rightarrow> set_volume v p3
                                     | None \<Rightarrow>
                                         if get_volume p3 \<le> 0 then set_volume 70 p3 else p3);
                               p5 = p4\<lparr>state := dict_set (str ''last_stationuuid'')
                                                     (json_of_uuid uuid) (state p4)\<rparr>;
                               (r, w2) = save_json c STATE_FILE (JDict (state p5)) w1
                           in (case r of
                                 Returned u \<Rightarrow> (Returned True, (p5, w2))
                               | Raised e \<Rightarrow> (Raised e, (p5, w2)))))))"



text \<open>\<open>Player.shutdown\<close>.\<close>

definition shutdown :: "player \<Rightarrow> player" where
  "shutdown p = stop (p\<lparr>stop_flag := True\<rparr>)"

section \<open>The VU meter\<close>

text \<open>
  The sink inputs of the audio server, as far as \<open>PulseVU.level\<close> looks at their
  identity: the application name and the binary name of the property list, each
  possibly missing.
\<close>

record sink_input =
  si_app_name :: "pystr option"
  si_binary :: "pystr option"

text \<open>
  \<open>str.lower\<close> on the letters A to Z. Only these three of them matter below: no other
  code point has \<open>v\<close>, \<open>l\<close> or \<open>c\<close> as its lower case.
\<close>

definition lower :: "pystr \<Rightarrow> pystr" where
  "lower s = map (\<lambda>c. if 65 \<le> c \<and> c \<le> 90 then c + 32 else c) s"

text \<open>\<open>sub in s\<close> on strings.\<close>

fun contains :: "pystr \<Rightarrow> pystr \<Rightarrow> bool" where
  "contains sub [] = (sub = [])"
| "contains sub (x # xs) = (take (length sub) (x # xs) = sub \<or> contains sub xs)"

text \<open>The test that picks the sink input of VLC.\<close>

definition is_vlc :: "sink_input \<Rightarrow> bool" where
  "is_vlc si =
     (let app = lower (or_empty (si_app_name si));
          binname = lower (or_empty (si_binary si))
      in contains (str ''vlc'') app \<or> contains (str ''vlc'') binname \<or>
         contains (str ''libvlc'') app)"

record pulse_vu =
  vu_ok :: bool
  vu_last_level :: int

text \<open>
  \<open>PulseVU.level\<close>. \<open>inputs\<close> is the list of sink inputs, or \<open>None\<close> when asking for
  it raises. The smoothed level of the chosen input is floating-point arithmetic on its
  channel volumes; it is the parameter \<open>smooth\<close>, from the last level and the input to
  the new level, \<open>None\<close> when it raises.
\<close>

definition PulseVU_level ::
  "(int \<Rightarrow> sink_input \<Rightarrow> int option) \<Rightarrow> sink_input list option \<Rightarrow> pulse_vu \<Rightarrow>
   int option \<times> pulse_vu" where
  "PulseVU_level smooth inputs vu =
     (if \<not> vu_ok vu then (None, vu)
      else case inputs of
             None \<Rightarrow> (None, vu)
           | Some sis \<Rightarrow>
              (case find is_vlc sis of
                 None \<Rightarrow> (None, vu)
               | Some target \<Rightarrow>
                  (case smooth (vu_last_level vu) target of
                     None \<Rightarrow> (None, vu)
                   | Some l \<Rightarrow> (Some l, vu\<lparr>vu_last_level := l\<rparr>))))"

text \<open>The probe is not available, or asking it raises, or no sink input is VLC's.\<close>

definition probe_unavailable :: "sink_input list option \<Rightarrow> pulse_vu \<Rightarrow> bool" where
  "probe_unavailable inputs vu \<longleftrightarrow>
     \<not> vu_ok vu \<or> (case inputs of None \<Rightarrow> True | Some sis \<Rightarrow> find is_vlc sis = None)"

text \<open>The width of the meter in \<open>station_browser\<close>, from the width of the terminal.\<close>

definition vu_width :: "int \<Rightarrow> int" where
  "vu_width w = min 30 (max 10 (w - 20))"

text \<open>
  \<open>int((volume / 100) * vu_width)\<close>: the quotient cut towards zero. The source computes
  it in floating point; for the widths 10 to 30 that \<open>vu_width\<close> gives and volumes 0 to
  100 the floating-point result is this integer, and for other volumes both lie on the
  same side outside 0 to \<open>vu_width\<close>, where the clamp of \<open>vu_level\<close> makes them equal.
\<close>

definition fallback_base :: "int \<Rightarrow> int \<Rightarrow> int" where
  "fallback_base vol width =
     (let x = vol * width in if 0 \<le> x then x div 100 else - ((- x) div 100))"

text \<open>
  The level of the meter in \<open>station_browser\<close>: \<open>probe\<close> is what \<open>vu.level()\<close>
  returned, \<open>w\<close> the width of the terminal.
\<close>

definition vu_level :: "int option \<Rightarrow> player \<Rightarrow> int \<Rightarrow> int" where
  "vu_level probe p w =
     (let width = vu_width w;
          lvl = (case probe of
                   None \<Rightarrow>
                     let base = fallback_base (get_volume p) width
                     in if is_playing p then base else 0
                 | Some l \<Rightarrow> l)
      in clamp lvl 0 width)"

text \<open>
  The fallback as the specification words it: \<open>n\<close> is \<open>(vol / 100) * width\<close> rounded
  to an integer, that is, within one half of it, whatever the rule for ties.
\<close>

definition spec_rounded :: "int \<Rightarrow> int \<Rightarrow> int \<Rightarrow> bool" where
  "spec_rounded n vol width \<longleftrightarrow> 2 * \<bar>100 * n - vol * width\<bar> \<le> 100"

section \<open>The metadata thread and the main thread\<close>

text \<open>
  \<open>Player.__init__\<close> starts \<open>_meta_loop\<close> on a daemon thread, which then runs
  interleaved with the main thread. The thread is at one of four places: about to test
  the stop flag, past the test and about to run the \<open>try\<close> block, asleep, or returned
  from the loop. Each of its steps is taken as atomic.
\<close>

datatype pc = AtCheck | AtBody | AtSleep | Finished

text \<open>
  The player, the world, the place of the metadata thread, and the number of
  \<open>update_line\<close> calls the thread has made.
\<close>

record system =
  sys_player :: player
  sys_world :: world
  poller_pc :: pc
  poller_updates :: nat

text \<open>The end of \<open>Player.__init__\<close>: the flag is cleared and the thread started.\<close>

definition Player_init :: "player \<Rightarrow> world \<Rightarrow> system" where
  "Player_init p w =
     \<lparr>sys_player = p\<lparr>stop_flag := False\<rparr>, sys_world = w, poller_pc = AtCheck,
      poller_updates = 0\<rparr>"

text \<open>
  One step of \<open>_meta_loop\<close>; \<open>m\<close> is what the engine answers if the step is the \<open>try\<close>
  block.
\<close>

definition poller_step :: "poll \<Rightarrow> system \<Rightarrow> system" where
  "poller_step m s =
     (case poller_pc s of
        AtCheck \<Rightarrow>
          if stop_flag (sys_player s) then s\<lparr>poller_pc := Finished\<rparr> else s\<lparr>poller_pc := AtBody\<rparr>
      | AtBody \<Rightarrow>
          let (np, w) = meta_tick m (now (sys_player s), sys_world s)
          in s\<lparr>sys_player := (sys_player s)\<lparr>now := np\<rparr>, sys_world := w, poller_pc := AtSleep,
               poller_updates := poller_updates s + (case m of Media x \<Rightarrow> 1 | _ \<Rightarrow> 0)\<rparr>
      | AtSleep \<Rightarrow> s\<lparr>poller_pc := AtCheck\<rparr>
      | Finished \<Rightarrow> s)"

text \<open>
  A schedule is a list of actions: a step of the metadata thread, or the main thread
  calling \<open>Player.shutdown\<close>, which has returned when the action is over.
\<close>

datatype action = Poller poll | MainShutdown

fun step :: "action \<Rightarrow> system \<Rightarrow> system" where
  "step (Poller m) s = poller_step m s"
| "step MainShutdown s = s\<lparr>sys_player := shutdown (sys_player s)\<rparr>"

definition run :: "action list \<Rightarrow> system \<Rightarrow> system" where
  "run acts s = fold step acts s"

text \<open>The number of steps the metadata thread takes in a schedule.\<close>

fun poller_steps :: "action list \<Rightarrow> nat" where
  "poller_steps [] = 0"
| "poller_steps (Poller m # acts) = Suc (poller_steps acts)"
| "poller_steps (MainShutdown # acts) = poller_steps acts"

text \<open>
  With the flag set: the steps the thread still takes before it has returned, and the
  \<open>try\<close> blocks it still runs.
\<close>

fun rank :: "pc \<Rightarrow> nat" where
  "rank AtBody = 3"
| "rank AtSleep = 2"
| "rank AtCheck = 1"
| "rank Finished = 0"

fun pending :: "pc \<Rightarrow> nat" where
  "pending AtBody = 1"
| "pending AtCheck = 0"
| "pending AtSleep = 0"
| "pending Finished = 0"

section \<open>Sample values\<close>

definition world0 :: world where
  "world0 = \<lparr>files = Map.empty, makedirs_ok = True, nowplay_writable = True,
             nowplay_write_ok = True, tmux_present = False, tmux_run_ok = True,
             tmux_option = None, save_faults = (\<lambda>path. None), events = []\<rparr>"

definition A_B :: pystr where
  "A_B = str ''A'' @ [32, EM_DASH, 32] @ str ''B''"

text \<open>A small codec that knows the empty dictionary only.\<close>

definition sample_codec :: codec where
  "sample_codec =
     \<lparr>dumps = (\<lambda>j. if j = JDict [] then str ''{}'' else str ''{...}''),
      loads = (\<lambda>t. if t = str ''{}'' then Some (JDict []) else None)\<rparr>"

text \<open>A world whose favorites file is cut off, and one with an old state file.\<close>

definition corrupt_world :: world where
  "corrupt_world = world0\<lparr>files := [FAV_FILE \<mapsto> str ''{bad'']\<rparr>"

definition old_world :: world where
  "old_world = world0\<lparr>files := [STATE_FILE \<mapsto> str ''old'']\<rparr>"

text \<open>
  The world in the middle of saving the empty dictionary over the old state file, when
  one character has reached the temporary file.
\<close>

text \<open>The world with the old state file in which \<open>json.dump\<close> breaks after one character.\<close>

definition broken_world :: world where
  "broken_world = old_world\<lparr>save_faults := (\<lambda>path. Some (DumpFails 1))\<rparr>"

definition partial_world :: world where
  "partial_world =
     (emit (OpenWrite (tmp_path STATE_FILE)) old_world)
       \<lparr>files := (files old_world)(tmp_path STATE_FILE \<mapsto> str ''{'')\<rparr>"

text \<open>
  A working engine at volume 0, a fresh player with no stored volumes, the same player
  on an engine that reports volume -1, and two stations.
\<close>

definition sample_engine :: engine where
  "sample_engine = \<lparr>eng_media = None, eng_playing = False, eng_volume = 0, eng_muted = False,
                     eng_fails = False\<rparr>"

definition sample_player :: player where
  "sample_player = \<lparr>now = NowPlaying_init, engine = sample_engine, volumes = [],
                     state = [(str ''last_stationuuid'', JNull), (str ''show_history'', JBool True)],
                     stop_flag = False\<rparr>"


text \<open>
  A player whose engine raises, a world in which the cache directory cannot be created,
  and one in which the state file cannot be opened for saving.
\<close>

definition dead_player :: player where
  "dead_player = sample_player\<lparr>engine := sample_engine\<lparr>eng_fails := True\<rparr>\<rparr>"



definition station_abc :: station where
  "station_abc = \<lparr>st_name = Some (str ''Radio''), st_country = None,
                   st_stationuuid = Some (str ''abc''), st_url_resolved = Some (str ''http://x'')\<rparr>"

text \<open>A player that is playing at volume 56, and a probe that is switched off.\<close>

definition loud_player :: player where
  "loud_player = sample_player\<lparr>engine := sample_engine\<lparr>eng_volume := 56, eng_playing := True\<rparr>\<rparr>"

definition no_pulse :: pulse_vu where
  "no_pulse = \<lparr>vu_ok = False, vu_last_level = 0\<rparr>"

text \<open>Tags with a title only, and the system right after \<open>Player.__init__\<close>.\<close>

definition late_meta :: media_meta where
  "late_meta = \<lparr>meta_artist = None, meta_title = Some (str ''Song''),
                meta_now_playing = None, meta_description = None\<rparr>"

definition system0 :: system where
  "system0 = Player_init sample_player world0"

text \<open>The system with a player that is playing, and with one whose engine raises.\<close>

definition loud_system :: system where
  "loud_system = Player_init loud_player world0"

definition dead_system :: system where
  "dead_system = Player_init dead_player world0"

definition station_no_url :: station where
  "station_no_url = station_abc\<lparr>st_url_resolved := Some []\<rparr>"

section \<open>History invariant\<close>

lemma distinct_adj_take: "distinct_adj xs \<Longrightarrow> distinct_adj (take n xs)"
proof -
  assume "distinct_adj xs"
  then have "distinct_adj (take n xs @ drop n xs)" by simp
  then show ?thesis by (rule distinct_adj_appendD1)
qed

lemma history_inv_init: "history_inv NowPlaying_init"
  by (simp add: history_inv_def NowPlaying_init_def)

lemma history_inv_update_line:
  assumes "history_inv np"
  shows "history_inv (fst (update_line text (np, w)))"
proof -
  let ?l = "strip (or_empty text)"
  show ?thesis
  proof (cases "?l = [] \<or> ?l = line np")
    case True
    with assms show ?thesis by (auto simp: update_line_def Let_def)
  next
    case False
    from assms have adj: "distinct_adj (?l # history np)"
      using False by (auto simp: history_inv_def distinct_adj_Cons)
    have "distinct_adj (take 200 (?l # history np))"
      using adj by (rule distinct_adj_take)
    with assms False show ?thesis
      by (auto simp: update_line_def Let_def history_inv_def take_Cons')
  qed
qed

lemma history_inv_update_lines:
  "history_inv (fst s) \<Longrightarrow> history_inv (fst (update_lines ts s))"
proof (induction ts arbitrary: s)
  case Nil
  then show ?case by (simp add: update_lines_def)
next
  case (Cons t ts)
  obtain np w where s: "s = (np, w)" by (cases s)
  with Cons.prems have "history_inv (fst (update_line t s))"
    by (simp add: history_inv_update_line)
  then have "history_inv (fst (update_lines ts (update_line t s)))"
    by (rule Cons.IH)
  then show ?case by (simp add: update_lines_def)
qed

text \<open>
  C1. Starting from the initial state, after any sequence of \<open>update_line\<close> calls (in
  any world) the history has at most 200 entries, no two neighbouring entries are equal,
  and whenever the history is not empty the current line is its first entry.
\<close>

theorem C1_history_invariant:
  "length (history (fst (update_lines ts (NowPlaying_init, w)))) \<le> 200 \<and>
   distinct_adj (history (fst (update_lines ts (NowPlaying_init, w)))) \<and>
   (history (fst (update_lines ts (NowPlaying_init, w))) \<noteq> [] \<longrightarrow>
      line (fst (update_lines ts (NowPlaying_init, w))) =
      hd (history (fst (update_lines ts (NowPlaying_init, w)))))"
proof -
  have "history_inv (fst (update_lines ts (NowPlaying_init, w)))"
    by (rule history_inv_update_lines) (simp add: history_inv_init)
  then show ?thesis by (simp add: history_inv_def)
qed

theorem C1_history_invariant_witness:
  "history (fst (update_lines [Some A_B, Some (str ''C'')] (NowPlaying_init, world0))) \<noteq> [] \<and>
   line (fst (update_lines [Some A_B, Some (str ''C'')] (NowPlaying_init, world0))) =
   hd (history (fst (update_lines [Some A_B, Some (str ''C'')] (NowPlaying_init, world0))))"
proof -
  have "history (fst (update_lines [Some A_B, Some (str ''C'')] (NowPlaying_init, world0))) \<noteq> []"
    by (simp add: update_lines_def update_line_def Let_def or_empty_def strip_def
        isspace_def str_def NowPlaying_init_def A_B_def EM_DASH_def)
  with C1_history_invariant [of "[Some A_B, Some (str ''C'')]" world0] show ?thesis
    by blast
qed

section \<open>What \<open>update_line\<close> does\<close>

lemma strip_A_B: "strip A_B = A_B"
  by (simp add: strip_def A_B_def str_def isspace_def EM_DASH_def)

lemma A_B_not_placeholder: "A_B \<noteq> [] \<and> A_B \<noteq> [EM_DASH]"
  by (simp add: A_B_def)

lemma strip_placeholder: "strip [EM_DASH] = [EM_DASH]"
  by (simp add: strip_def isspace_def EM_DASH_def)

lemma update_line_empty:
  "strip (or_empty text) = [] \<Longrightarrow> update_line text (np, w) = (np, w)"
  by (simp add: update_line_def)

lemma update_line_same:
  "strip (or_empty text) \<noteq> [] \<Longrightarrow> strip (or_empty text) = line np \<Longrightarrow>
   update_line text (np, w) = (np, emit LockRelease (emit LockAcquire w))"
  by (simp add: update_line_def Let_def)

lemma update_line_new:
  "strip (or_empty text) \<noteq> [] \<Longrightarrow> strip (or_empty text) \<noteq> line np \<Longrightarrow>
   update_line text (np, w) =
     (np\<lparr>line := strip (or_empty text),
         history := take (max_history np) (strip (or_empty text) # history np)\<rparr>,
      emit LockRelease
        (write_nowplay
           (np\<lparr>line := strip (or_empty text),
               history := take (max_history np) (strip (or_empty text) # history np)\<rparr>)
           (emit LockAcquire w)))"
  by (simp add: update_line_def Let_def)

lemma update_line_twice_A_B:
  "history (fst (update_line (Some A_B) (update_line (Some A_B) (NowPlaying_init, w)))) = [A_B]"
  using A_B_not_placeholder
  by (simp add: update_line_def Let_def or_empty_def strip_A_B NowPlaying_init_def)

lemma update_line_placeholder:
  "update_line (Some [EM_DASH]) (NowPlaying_init, w) =
     (NowPlaying_init, emit LockRelease (emit LockAcquire w))"
  by (simp add: update_line_def Let_def or_empty_def strip_placeholder NowPlaying_init_def)

lemma update_line_outcome_raised:
  "update_line_outcome text (np, w) = Raised OSError \<longleftrightarrow>
     strip (or_empty text) \<noteq> [] \<and> strip (or_empty text) \<noteq> line np \<and> \<not> makedirs_ok w"
  by (simp add: update_line_outcome_def write_nowplay_outcome_def Let_def)

lemma set_station_outcome_raised:
  "set_station_outcome (np, w) = Raised OSError \<longleftrightarrow> \<not> makedirs_ok w"
  by (simp add: set_station_outcome_def write_nowplay_outcome_def)

text \<open>
  C2 does not hold as the specification states it: in the initial state, whose history is empty, a text
  equal to the initial placeholder line is dropped, and the history stays empty.
\<close>

theorem C2_placeholder_counterexample:
  "history (fst (update_line (Some [EM_DASH]) (NowPlaying_init, world0))) = [] \<and>
   fst (update_line (Some [EM_DASH]) (NowPlaying_init, world0)) = NowPlaying_init \<and>
   files (snd (update_line (Some [EM_DASH]) (NowPlaying_init, world0))) NOWPLAY_FILE = None"
  by (simp add: update_line_def Let_def or_empty_def strip_placeholder NowPlaying_init_def
      emit_def world0_def)

text \<open>
  C2, amended. With \<open>l\<close> the text stripped of surrounding whitespace (\<open>None\<close> counting as
  empty), \<open>update_line\<close> changes nothing when \<open>l\<close> is empty; it changes neither the state
  nor any file, and only takes and releases the lock, when \<open>l\<close> equals the current line
  (which is the placeholder in the initial state, while the history is still empty);
  otherwise it makes \<open>l\<close> the current line, puts it in front of the history cut to
  \<open>max_history\<close> entries, and writes the now-playing file. Two calls with the text \<open>A_B\<close>
  from the initial state leave the history with that one entry.
\<close>

theorem C2_update_line:
  "(strip (or_empty text) = [] \<longrightarrow> update_line text (np, w) = (np, w)) \<and>
   (strip (or_empty text) \<noteq> [] \<and> strip (or_empty text) = line np \<longrightarrow>
      update_line text (np, w) = (np, emit LockRelease (emit LockAcquire w))) \<and>
   (strip (or_empty text) \<noteq> [] \<and> strip (or_empty text) \<noteq> line np \<longrightarrow>
      update_line text (np, w) =
        (np\<lparr>line := strip (or_empty text),
            history := take (max_history np) (strip (or_empty text) # history np)\<rparr>,
         emit LockRelease
           (write_nowplay
              (np\<lparr>line := strip (or_empty text),
                  history := take (max_history np) (strip (or_empty text) # history np)\<rparr>)
              (emit LockAcquire w))) \<and>
      fst (update_line text (np, w)) \<noteq> np) \<and>
   history (fst (update_line (Some A_B) (update_line (Some A_B) (NowPlaying_init, w)))) = [A_B]"
proof -
  have c1: "strip (or_empty text) = [] \<longrightarrow> update_line text (np, w) = (np, w)"
    using update_line_empty by blast
  have c2: "strip (or_empty text) \<noteq> [] \<and> strip (or_empty text) = line np \<longrightarrow>
      update_line text (np, w) = (np, emit LockRelease (emit LockAcquire w))"
    using update_line_same by blast
  have c3: "strip (or_empty text) \<noteq> [] \<and> strip (or_empty text) \<noteq> line np \<longrightarrow>
      update_line text (np, w) =
        (np\<lparr>line := strip (or_empty text),
            history := take (max_history np) (strip (or_empty text) # history np)\<rparr>,
         emit LockRelease
           (write_nowplay
              (np\<lparr>line := strip (or_empty text),
                  history := take (max_history np) (strip (or_empty text) # history np)\<rparr>)
              (emit LockAcquire w)))"
    using update_line_new by blast
  have c4: "fst (update_line text (np, w)) \<noteq> np"
    if "strip (or_empty text) \<noteq> []" and "strip (or_empty text) \<noteq> line np"
  proof
    assume "fst (update_line text (np, w)) = np"
    then have "line (fst (update_line text (np, w))) = line np" by simp
    with that show False by (simp add: update_line_new)
  qed
  have c5: "history (fst (update_line (Some A_B) (update_line (Some A_B) (NowPlaying_init, w)))) = [A_B]"
    by (rule update_line_twice_A_B)
  from c1 c2 c3 c4 c5 show ?thesis by blast
qed

theorem C2_update_line_witness:
  "(strip (or_empty (Some (str ''  ''))) = [] \<and>
    update_line (Some (str ''  '')) (NowPlaying_init, world0) = (NowPlaying_init, world0)) \<and>
   (strip (or_empty (Some [EM_DASH])) \<noteq> [] \<and>
    strip (or_empty (Some [EM_DASH])) = line NowPlaying_init \<and>
    update_line (Some [EM_DASH]) (NowPlaying_init, world0) =
      (NowPlaying_init, emit LockRelease (emit LockAcquire world0))) \<and>
   (strip (or_empty (Some A_B)) \<noteq> [] \<and> strip (or_empty (Some A_B)) \<noteq> line NowPlaying_init \<and>
    fst (update_line (Some A_B) (NowPlaying_init, world0)) \<noteq> NowPlaying_init)"
proof -
  have a: "strip (or_empty (Some A_B)) \<noteq> [] \<and> strip (or_empty (Some A_B)) \<noteq> line NowPlaying_init"
    using A_B_not_placeholder by (simp add: or_empty_def strip_A_B NowPlaying_init_def)
  have b: "strip (or_empty (Some (str ''  ''))) = []"
    by (simp add: or_empty_def strip_def str_def isspace_def)
  have c: "strip (or_empty (Some [EM_DASH])) \<noteq> [] \<and>
           strip (or_empty (Some [EM_DASH])) = line NowPlaying_init"
    by (simp add: or_empty_def strip_placeholder NowPlaying_init_def)
  from b C2_update_line [of "Some (str ''  '')" NowPlaying_init world0]
  have 1: "update_line (Some (str ''  '')) (NowPlaying_init, world0) = (NowPlaying_init, world0)"
    by blast
  from c C2_update_line [of "Some [EM_DASH]" NowPlaying_init world0]
  have 2: "update_line (Some [EM_DASH]) (NowPlaying_init, world0) =
      (NowPlaying_init, emit LockRelease (emit LockAcquire world0))"
    by blast
  from a C2_update_line [of "Some A_B" NowPlaying_init world0]
  have 3: "fst (update_line (Some A_B) (NowPlaying_init, world0)) \<noteq> NowPlaying_init"
    by blast
  from a b c 1 2 3 show ?thesis by blast
qed

section \<open>What happens while the lock is held\<close>

lemma events_write_nowplay: "events (write_nowplay np w) = events w @ nowplay_io np w"
  by (simp add: write_nowplay_def nowplay_io_def emit_def Let_def)

lemma nowplay_io_emit: "nowplay_io np (emit e w) = nowplay_io np w"
  by (simp add: nowplay_io_def emit_def Let_def)

lemma io_under_lock_nowplay: "io_under_lock False (LockAcquire # nowplay_io np w @ es)"
  by (simp add: nowplay_io_def Let_def)

lemma events_emit: "events (emit e w) = events w @ [e]"
  by (simp add: emit_def)

lemma emitted_append: "events w' = events w @ es \<Longrightarrow> emitted w w' = es"
  by (simp add: emitted_def)

lemma emitted_snapshot: "emitted w (snd (snd (snapshot (np, w)))) = [LockAcquire, LockRelease]"
  by (rule emitted_append) (simp add: snapshot_def events_emit)

lemma emitted_set_station:
  "emitted w (snd (set_station name uuid (np, w))) =
     LockAcquire # nowplay_io (fst (set_station name uuid (np, w))) w @ [LockRelease]"
  by (rule emitted_append)
     (simp add: set_station_def Let_def events_emit events_write_nowplay nowplay_io_emit)

lemma emitted_update_line_quiet:
  assumes "strip (or_empty text) = [] \<or> strip (or_empty text) = line np"
  shows "\<not> io_under_lock False (emitted w (snd (update_line text (np, w))))"
proof (cases "strip (or_empty text) = []")
  case True
  then show ?thesis by (simp add: update_line_empty emitted_def)
next
  case False
  with assms have "update_line text (np, w) = (np, emit LockRelease (emit LockAcquire w))"
    by (simp add: update_line_same)
  then show ?thesis by (simp add: emitted_def emit_def)
qed

lemma emitted_update_line_new:
  assumes "strip (or_empty text) \<noteq> []" and "strip (or_empty text) \<noteq> line np"
  shows "emitted w (snd (update_line text (np, w))) =
     LockAcquire # nowplay_io (fst (update_line text (np, w))) w @ [LockRelease]"
  using assms
  by (intro emitted_append)
     (simp add: update_line_new events_emit events_write_nowplay nowplay_io_emit)

text \<open>
  C5 does not hold as the specification states it: \<open>set_station\<close> creates the cache directory and writes
  the now-playing file between taking and releasing the lock.
\<close>

theorem C5_set_station_counterexample:
  "io_under_lock False
     (emitted world0
        (snd (set_station (Some (str ''Radio'')) (Some (str ''abc'')) (NowPlaying_init, world0))))"
  by (simp only: emitted_set_station io_under_lock_nowplay)

text \<open>
  C5, amended. \<open>snapshot\<close> does no input or output while it holds the lock, and neither
  does \<open>update_line\<close> when the stripped text is empty or equal to the current line.
  \<open>set_station\<close>, and \<open>update_line\<close> when it changes the line, run \<open>_write_nowplay\<close>
  between taking and releasing the lock: they create the cache directory, open and write
  the now-playing file and, under tmux, run the tmux command while holding it.
\<close>

theorem C5_io_under_lock:
  "emitted w (snd (snd (snapshot (np, w)))) = [LockAcquire, LockRelease] \<and>
   \<not> io_under_lock False (emitted w (snd (snd (snapshot (np, w))))) \<and>
   (strip (or_empty text) = [] \<or> strip (or_empty text) = line np \<longrightarrow>
      \<not> io_under_lock False (emitted w (snd (update_line text (np, w))))) \<and>
   emitted w (snd (set_station name uuid (np, w))) =
     LockAcquire # nowplay_io (fst (set_station name uuid (np, w))) w @ [LockRelease] \<and>
   io_under_lock False (emitted w (snd (set_station name uuid (np, w)))) \<and>
   (strip (or_empty text) \<noteq> [] \<and> strip (or_empty text) \<noteq> line np \<longrightarrow>
      emitted w (snd (update_line text (np, w))) =
        LockAcquire # nowplay_io (fst (update_line text (np, w))) w @ [LockRelease] \<and>
      io_under_lock False (emitted w (snd (update_line text (np, w)))))"
proof -
  have s1: "emitted w (snd (snd (snapshot (np, w)))) = [LockAcquire, LockRelease]"
    by (rule emitted_snapshot)
  have s2: "\<not> io_under_lock False (emitted w (snd (snd (snapshot (np, w)))))"
    by (simp add: emitted_snapshot)
  have u1: "strip (or_empty text) = [] \<or> strip (or_empty text) = line np \<longrightarrow>
      \<not> io_under_lock False (emitted w (snd (update_line text (np, w))))"
    using emitted_update_line_quiet by blast
  have t1: "emitted w (snd (set_station name uuid (np, w))) =
     LockAcquire # nowplay_io (fst (set_station name uuid (np, w))) w @ [LockRelease]"
    by (rule emitted_set_station)
  have t2: "io_under_lock False (emitted w (snd (set_station name uuid (np, w))))"
    by (simp only: emitted_set_station io_under_lock_nowplay)
  have u2: "emitted w (snd (update_line text (np, w))) =
        LockAcquire # nowplay_io (fst (update_line text (np, w))) w @ [LockRelease] \<and>
      io_under_lock False (emitted w (snd (update_line text (np, w))))"
    if "strip (or_empty text) \<noteq> []" and "strip (or_empty text) \<noteq> line np"
    using that by (simp only: emitted_update_line_new io_under_lock_nowplay simp_thms)
  from s1 s2 u1 t1 t2 u2 show ?thesis by blast
qed

theorem C5_io_under_lock_witness:
  "(strip (or_empty (Some [EM_DASH])) = [] \<or> strip (or_empty (Some [EM_DASH])) = line NowPlaying_init) \<and>
   \<not> io_under_lock False (emitted world0 (snd (update_line (Some [EM_DASH]) (NowPlaying_init, world0)))) \<and>
   strip (or_empty (Some A_B)) \<noteq> [] \<and> strip (or_empty (Some A_B)) \<noteq> line NowPlaying_init \<and>
   io_under_lock False (emitted world0 (snd (update_line (Some A_B) (NowPlaying_init, world0))))"
proof -
  have a: "strip (or_empty (Some A_B)) \<noteq> [] \<and> strip (or_empty (Some A_B)) \<noteq> line NowPlaying_init"
    using A_B_not_placeholder by (simp add: or_empty_def strip_A_B NowPlaying_init_def)
  have c: "strip (or_empty (Some [EM_DASH])) = line NowPlaying_init"
    by (simp add: or_empty_def strip_placeholder NowPlaying_init_def)
  from c C5_io_under_lock [of world0 NowPlaying_init "Some [EM_DASH]"]
  have 1: "\<not> io_under_lock False
      (emitted world0 (snd (update_line (Some [EM_DASH]) (NowPlaying_init, world0))))"
    by blast
  from a C5_io_under_lock [of world0 NowPlaying_init "Some A_B"]
  have 2: "io_under_lock False
      (emitted world0 (snd (update_line (Some A_B) (NowPlaying_init, world0))))"
    by blast
  from a c 1 2 show ?thesis by blast
qed

section \<open>Metadata precedence\<close>

lemma resolve_line_first_nonempty:
  "resolve_line m = first_nonempty (spec_candidates m) NO_METADATA"
  by (simp add: resolve_line_def spec_candidates_def Let_def)

text \<open>
  C8. For every combination of the four tags, each absent, empty or present, the line
  the poller resolves is the first non-empty candidate among: artist, separator and
  title (when both artist and title are non-empty), the title, the now-playing tag, the
  description tag; and the fixed placeholder when none is. That line is what the poller
  passes to \<open>update_line\<close>.
\<close>

theorem C8_metadata_precedence:
  "resolve_line m = first_nonempty (spec_candidates m) NO_METADATA \<and>
   resolve_line m =
     (if or_empty (meta_artist m) \<noteq> [] \<and> or_empty (meta_title m) \<noteq> []
      then or_empty (meta_artist m) @ [32, EM_DASH, 32] @ or_empty (meta_title m)
      else if or_empty (meta_title m) \<noteq> [] then or_empty (meta_title m)
      else if or_empty (meta_now_playing m) \<noteq> [] then or_empty (meta_now_playing m)
      else if or_empty (meta_description m) \<noteq> [] then or_empty (meta_description m)
      else NO_METADATA) \<and>
   meta_tick (Media m) s = update_line (Some (resolve_line m)) s"
proof -
  have r: "resolve_line m = first_nonempty (spec_candidates m) NO_METADATA"
    by (rule resolve_line_first_nonempty)
  have e: "resolve_line m =
     (if or_empty (meta_artist m) \<noteq> [] \<and> or_empty (meta_title m) \<noteq> []
      then or_empty (meta_artist m) @ [32, EM_DASH, 32] @ or_empty (meta_title m)
      else if or_empty (meta_title m) \<noteq> [] then or_empty (meta_title m)
      else if or_empty (meta_now_playing m) \<noteq> [] then or_empty (meta_now_playing m)
      else if or_empty (meta_description m) \<noteq> [] then or_empty (meta_description m)
      else NO_METADATA)"
    by (simp add: resolve_line_def Let_def)
  have t: "meta_tick (Media m) s = update_line (Some (resolve_line m)) s"
    by (simp add: meta_tick_def)
  from r e t show ?thesis by (intro conjI)
qed

theorem C8_metadata_precedence_witness:
  "resolve_line \<lparr>meta_artist = Some (str ''A''), meta_title = Some (str ''B''),
                 meta_now_playing = Some (str ''N''), meta_description = None\<rparr> = A_B \<and>
   resolve_line \<lparr>meta_artist = Some (str ''A''), meta_title = Some [],
                 meta_now_playing = None, meta_description = Some (str ''D'')\<rparr> = str ''D'' \<and>
   resolve_line \<lparr>meta_artist = None, meta_title = None,
                 meta_now_playing = None, meta_description = Some []\<rparr> = NO_METADATA"
proof -
  have 1: "resolve_line \<lparr>meta_artist = Some (str ''A''), meta_title = Some (str ''B''),
                 meta_now_playing = Some (str ''N''), meta_description = None\<rparr> = A_B"
    using C8_metadata_precedence [of "\<lparr>meta_artist = Some (str ''A''), meta_title = Some (str ''B''),
                 meta_now_playing = Some (str ''N''), meta_description = None\<rparr>"
                 "(NowPlaying_init, world0)", THEN conjunct2, THEN conjunct1]
    by (simp add: or_empty_def str_def A_B_def)
  have 2: "resolve_line \<lparr>meta_artist = Some (str ''A''), meta_title = Some [],
                 meta_now_playing = None, meta_description = Some (str ''D'')\<rparr> = str ''D''"
    using C8_metadata_precedence [of "\<lparr>meta_artist = Some (str ''A''), meta_title = Some [],
                 meta_now_playing = None, meta_description = Some (str ''D'')\<rparr>"
                 "(NowPlaying_init, world0)", THEN conjunct2, THEN conjunct1]
    by (simp add: or_empty_def str_def)
  have 3: "resolve_line \<lparr>meta_artist = None, meta_title = None,
                 meta_now_playing = None, meta_description = Some []\<rparr> = NO_METADATA"
    using C8_metadata_precedence [of "\<lparr>meta_artist = None, meta_title = None,
                 meta_now_playing = None, meta_description = Some []\<rparr>"
                 "(NowPlaying_init, world0)", THEN conjunct2, THEN conjunct1]
    by (simp add: or_empty_def)
  from 1 2 3 show ?thesis by (intro conjI)
qed

section \<open>Loading and saving\<close>

lemma load_json_unreadable: "unreadable c w path \<Longrightarrow> load_json c w path dflt = dflt"
  by (auto simp: unreadable_def load_json_def load_json_try_def open_read_def json_load_def
      split: option.splits)

lemma load_json_readable:
  "files w path = Some t \<Longrightarrow> loads c t = Some j \<Longrightarrow> load_json c w path dflt = j"
  by (simp add: load_json_def load_json_try_def open_read_def json_load_def)

lemma autostart_unreadable: "unreadable c w STATE_FILE \<Longrightarrow> autostart_last c w = Inr JNull"
  by (simp add: autostart_last_def load_json_unreadable json_get_def)


text \<open>
  C7. \<open>load_json\<close> has no exceptional result: whatever the \<open>try\<close> block raises is
  replaced by the default. When the file is missing or does not parse, the load of the
  favorites gives the empty dictionary, the load of the volumes the empty dictionary,
  the load of the state the dictionary with no last station and the history shown, and
  \<open>autostart_last\<close> no last station; a file that parses gives the parsed value.
\<close>

theorem C7_load_defaults:
  "(unreadable c w path \<longrightarrow> load_json c w path dflt = dflt) \<and>
   (unreadable c w FAV_FILE \<longrightarrow> load_favs c w = JDict []) \<and>
   (unreadable c w VOL_FILE \<longrightarrow> load_volumes c w = JDict []) \<and>
   (unreadable c w STATE_FILE \<longrightarrow>
      load_state c w =
        JDict [(str ''last_stationuuid'', JNull), (str ''show_history'', JBool True)] \<and>
      autostart_last c w = Inr JNull) \<and>
   (files w path = Some t \<and> loads c t = Some j \<longrightarrow> load_json c w path dflt = j)"
  using load_json_unreadable [of c w] autostart_unreadable [of c w]
    load_json_readable [of w path t c j dflt]
  by (simp add: load_favs_def load_volumes_def load_state_def DEFAULT_STATE_def)

theorem C7_load_defaults_witness:
  "unreadable sample_codec corrupt_world FAV_FILE \<and>
   load_favs sample_codec corrupt_world = JDict [] \<and>
   unreadable sample_codec world0 STATE_FILE \<and>
   load_state sample_codec world0 =
     JDict [(str ''last_stationuuid'', JNull), (str ''show_history'', JBool True)]"
proof -
  have 1: "unreadable sample_codec corrupt_world FAV_FILE"
    by (simp add: unreadable_def corrupt_world_def sample_codec_def str_def)
  have 2: "unreadable sample_codec world0 STATE_FILE"
    by (simp add: unreadable_def world0_def)
  from 1 2
    C7_load_defaults [of sample_codec corrupt_world FAV_FILE "JDict []"]
    C7_load_defaults [of sample_codec world0 STATE_FILE "JDict []"]
  show ?thesis by blast
qed

lemma tmp_path_neq: "tmp_path path \<noteq> path"
  by (simp add: tmp_path_def str_def)

lemma dir_part_tmp: "dir_part (tmp_path path) = dir_part path"
  by (simp add: dir_part_def tmp_path_def str_def)

lemma files_emit: "files (emit e w) = files w"
  by (simp add: emit_def)

lemma write_prefixes_target:
  "v \<in> set (write_prefixes tmp text w) \<Longrightarrow> path \<noteq> tmp \<Longrightarrow> files v path = files w path"
  by (auto simp: write_prefixes_def)

lemma write_prefixes_tmp:
  "v \<in> set (write_prefixes tmp text w) \<Longrightarrow> \<exists>k\<le>length text. files v tmp = Some (take k text)"
  by (auto simp: write_prefixes_def less_Suc_eq_le simp del: upt_Suc)

lemma last_write_prefixes:
  "last (write_prefixes tmp text w) = w\<lparr>files := (files w)(tmp \<mapsto> text)\<rparr>"
  by (simp add: write_prefixes_def last_map del: upt_Suc)

lemma butlast_steps:
  "butlast (save_json_steps c path data w) =
     write_prefixes (tmp_path path) (dumps c data) (emit (OpenWrite (tmp_path path)) w)"
  by (simp add: save_json_steps_def Let_def)

lemma files_last_steps:
  "files (last (save_json_steps c path data w)) =
     (files w)(path \<mapsto> dumps c data, tmp_path path := None)"
  using tmp_path_neq [of path]
  by (simp add: save_json_steps_def Let_def replace_def files_emit
      last_write_prefixes fun_upd_twist)

lemma save_json_ok:
  "save_faults w path = None \<Longrightarrow>
   save_json c path data w = (Returned (), last (save_json_steps c path data w))"
  by (simp add: save_json_def Let_def)

lemma nth_write_prefixes:
  "k \<le> length text \<Longrightarrow> write_prefixes tmp text w ! k \<in> set (write_prefixes tmp text w)"
  by (simp add: write_prefixes_def del: upt_Suc)

lemma save_json_raised:
  assumes "save_faults w path = Some f"
  shows "fst (save_json c path data w) = Raised OSError \<and>
         files (snd (save_json c path data w)) path = files w path"
proof (cases f)
  case OpenFails
  with assms show ?thesis by (simp add: save_json_def Let_def files_emit)
next
  case (DumpFails k)
  have "write_prefixes (tmp_path path) (dumps c data) (emit (OpenWrite (tmp_path path)) w) !
          min k (length (dumps c data))
        \<in> set (write_prefixes (tmp_path path) (dumps c data) (emit (OpenWrite (tmp_path path)) w))"
    by (rule nth_write_prefixes) simp
  from write_prefixes_target [OF this, of path] tmp_path_neq [of path] assms DumpFails
  show ?thesis by (simp add: save_json_def Let_def files_emit)
next
  case ReplaceFails
  with assms tmp_path_neq [of path] show ?thesis
    by (simp add: save_json_def Let_def files_emit last_write_prefixes)
qed

lemma save_json_returned_iff:
  "fst (save_json c path data w) = Returned () \<longleftrightarrow> save_faults w path = None"
proof (cases "save_faults w path")
  case None
  then show ?thesis by (simp add: save_json_ok)
next
  case (Some f)
  with save_json_raised [OF Some, of c data] show ?thesis by simp
qed

text \<open>
  C6. \<open>save_json\<close> writes the serialised data to \<open>path.tmp\<close>, a different file in the
  directory of \<open>path\<close>, and then renames it over \<open>path\<close> in one step. In every world
  the file system passes through before the rename, the target is as it was before the
  call and the temporary file holds a prefix of the text; after the rename the target
  holds the whole text and the temporary file is gone. So at every step the target is
  either unchanged or complete. When no operation fails the call returns in the world
  after the rename; when it returns the target is complete; and when \<open>open\<close>,
  \<open>json.dump\<close> or \<open>os.replace\<close> raises, the call raises and the target is as it was.
\<close>

theorem C6_atomic_save:
  "(\<forall>v \<in> set (butlast (save_json_steps c path data w)).
      files v path = files w path \<and>
      (\<exists>k\<le>length (dumps c data). files v (tmp_path path) = Some (take k (dumps c data)))) \<and>
   (save_faults w path = None \<longrightarrow>
      save_json c path data w = (Returned (), last (save_json_steps c path data w))) \<and>
   files (last (save_json_steps c path data w)) path = Some (dumps c data) \<and>
   files (last (save_json_steps c path data w)) (tmp_path path) = None \<and>
   (fst (save_json c path data w) = Returned () \<longrightarrow>
      files (snd (save_json c path data w)) path = Some (dumps c data) \<and>
      files (snd (save_json c path data w)) (tmp_path path) = None) \<and>
   (fst (save_json c path data w) \<noteq> Returned () \<longrightarrow>
      fst (save_json c path data w) = Raised OSError \<and>
      files (snd (save_json c path data w)) path = files w path) \<and>
   (\<forall>v \<in> set (save_json_steps c path data w).
      files v path = files w path \<or> files v path = Some (dumps c data)) \<and>
   tmp_path path \<noteq> path \<and> dir_part (tmp_path path) = dir_part path"
proof -
  have neq: "path \<noteq> tmp_path path" using tmp_path_neq [of path] by simp
  have a: "files v path = files w path \<and>
      (\<exists>k\<le>length (dumps c data). files v (tmp_path path) = Some (take k (dumps c data)))"
    if "v \<in> set (butlast (save_json_steps c path data w))" for v
    using that neq write_prefixes_target [of v "tmp_path path" "dumps c data" _ path]
      write_prefixes_tmp [of v "tmp_path path" "dumps c data"]
    by (simp add: butlast_steps files_emit)
  have b: "files (last (save_json_steps c path data w)) path = Some (dumps c data)"
    using neq by (simp add: files_last_steps)
  have c: "files (last (save_json_steps c path data w)) (tmp_path path) = None"
    by (simp add: files_last_steps)
  have steps: "save_json_steps c path data w =
      butlast (save_json_steps c path data w) @ [last (save_json_steps c path data w)]"
    by (simp add: save_json_steps_def Let_def)
  have d: "files v path = files w path \<or> files v path = Some (dumps c data)"
    if "v \<in> set (save_json_steps c path data w)" for v
  proof -
    from that steps have "v \<in> set (butlast (save_json_steps c path data w)) \<or>
        v = last (save_json_steps c path data w)"
      by (metis Un_iff insert_iff list.set(2) set_append empty_iff list.set(1))
    with a b show ?thesis by blast
  qed
  have e: "save_faults w path = None \<longrightarrow>
      save_json c path data w = (Returned (), last (save_json_steps c path data w))"
    using save_json_ok by blast
  have f: "files (snd (save_json c path data w)) path = Some (dumps c data) \<and>
      files (snd (save_json c path data w)) (tmp_path path) = None"
    if "fst (save_json c path data w) = Returned ()"
  proof -
    from that have "save_faults w path = None" by (simp add: save_json_returned_iff)
    with b c show ?thesis by (simp add: save_json_ok)
  qed
  have g: "fst (save_json c path data w) = Raised OSError \<and>
      files (snd (save_json c path data w)) path = files w path"
    if "fst (save_json c path data w) \<noteq> Returned ()"
  proof -
    from that obtain ft where "save_faults w path = Some ft"
      by (auto simp: save_json_returned_iff)
    then show ?thesis by (rule save_json_raised)
  qed
  from a b c d e f g tmp_path_neq [of path] dir_part_tmp [of path] show ?thesis by blast
qed

lemma partial_world_step:
  "partial_world \<in> set (butlast (save_json_steps sample_codec STATE_FILE (JDict []) old_world))"
  unfolding butlast_steps write_prefixes_def partial_world_def
  by (simp add: sample_codec_def str_def emit_def)

lemma sample_save_faults:
  "save_faults old_world STATE_FILE = None \<and>
   fst (save_json sample_codec STATE_FILE (JDict []) broken_world) \<noteq> Returned ()"
  by (simp add: save_json_returned_iff old_world_def world0_def broken_world_def)

theorem C6_atomic_save_witness:
  "partial_world \<in> set (butlast (save_json_steps sample_codec STATE_FILE (JDict []) old_world)) \<and>
   files partial_world STATE_FILE = Some (str ''old'') \<and>
   files partial_world (tmp_path STATE_FILE) = Some (str ''{'') \<and>
   save_faults old_world STATE_FILE = None \<and>
   fst (save_json sample_codec STATE_FILE (JDict []) old_world) = Returned () \<and>
   files (snd (save_json sample_codec STATE_FILE (JDict []) old_world)) STATE_FILE =
     Some (str ''{}'') \<and>
   fst (save_json sample_codec STATE_FILE (JDict []) broken_world) = Raised OSError \<and>
   files (snd (save_json sample_codec STATE_FILE (JDict []) broken_world)) STATE_FILE =
     Some (str ''old'')"
proof -
  note t = C6_atomic_save [of sample_codec STATE_FILE "JDict []" old_world]
  note u = C6_atomic_save [of sample_codec STATE_FILE "JDict []" broken_world]
  from t partial_world_step
  have 1: "files partial_world STATE_FILE = files old_world STATE_FILE" by blast
  have 2: "files old_world STATE_FILE = Some (str ''old'') \<and>
           files broken_world STATE_FILE = Some (str ''old'')"
    by (simp add: old_world_def broken_world_def)
  have 3: "files partial_world (tmp_path STATE_FILE) = Some (str ''{'')"
    by (simp add: partial_world_def)
  from t sample_save_faults
  have 4: "fst (save_json sample_codec STATE_FILE (JDict []) old_world) = Returned ()"
    by simp
  with t have 5: "files (snd (save_json sample_codec STATE_FILE (JDict []) old_world)) STATE_FILE =
      Some (dumps sample_codec (JDict []))" by blast
  have 6: "dumps sample_codec (JDict []) = str ''{}''" by (simp add: sample_codec_def)
  from u sample_save_faults
  have 7: "fst (save_json sample_codec STATE_FILE (JDict []) broken_world) = Raised OSError \<and>
      files (snd (save_json sample_codec STATE_FILE (JDict []) broken_world)) STATE_FILE =
        files broken_world STATE_FILE" by blast
  from partial_world_step sample_save_faults 1 2 3 4 5 6 7 show ?thesis by simp
qed

section \<open>Playing a station\<close>

lemma play_station_no_url:
  "or_empty (st_url_resolved st) = [] \<Longrightarrow> play_station c st (p, w) = (Returned False, (p, w))"
  by (simp add: play_station_def)






















text \<open>
  C10. When the resolved URL of the station is missing or empty, \<open>play_station\<close>
  returns \<open>False\<close> and the player (engine, now-playing state, volumes, state
  dictionary) and the world (files, tmux option, trace of effects) are as before.
\<close>

theorem C10_no_url:
  "or_empty (st_url_resolved st) = [] \<longrightarrow> play_station c st (p, w) = (Returned False, (p, w))"
  by (simp add: play_station_no_url)

theorem C10_no_url_witness:
  "or_empty (st_url_resolved station_no_url) = [] \<and>
   play_station sample_codec station_no_url (sample_player, world0) =
     (Returned False, (sample_player, world0)) \<and>
   or_empty (st_url_resolved (station_abc\<lparr>st_url_resolved := None\<rparr>)) = [] \<and>
   play_station sample_codec (station_abc\<lparr>st_url_resolved := None\<rparr>) (sample_player, world0) =
     (Returned False, (sample_player, world0))"
proof -
  have 1: "or_empty (st_url_resolved station_no_url) = []"
    by (simp add: station_no_url_def or_empty_def)
  have 2: "or_empty (st_url_resolved (station_abc\<lparr>st_url_resolved := None\<rparr>)) = []"
    by (simp add: or_empty_def)
  from 1 2
    C10_no_url [of station_no_url sample_codec sample_player world0]
    C10_no_url [of "station_abc\<lparr>st_url_resolved := None\<rparr>" sample_codec sample_player world0]
  show ?thesis by blast
qed

section \<open>The level of the VU meter\<close>

lemma vu_width_range: "10 \<le> vu_width w \<and> vu_width w \<le> 30"
  by (simp add: vu_width_def)

lemma vu_level_range: "0 \<le> vu_level probe p w \<and> vu_level probe p w \<le> vu_width w"
  using vu_width_range [of w] by (simp add: vu_level_def clamp_def Let_def)

lemma fallback_base_range:
  assumes "0 \<le> vol" and "vol \<le> 100" and "0 \<le> width"
  shows "fallback_base vol width = vol * width div 100 \<and>
         0 \<le> fallback_base vol width \<and> fallback_base vol width \<le> width"
proof -
  have "vol * width \<le> 100 * width" using assms by (simp add: mult_right_mono)
  then have "vol * width div 100 \<le> width" by simp
  moreover have "0 \<le> vol * width" using assms by simp
  ultimately show ?thesis by (simp add: fallback_base_def Let_def)
qed

lemma vu_level_fallback:
  "vu_level None p w =
     (if is_playing p then clamp (fallback_base (get_volume p) (vu_width w)) 0 (vu_width w) else 0)"
  using vu_width_range [of w] by (simp add: vu_level_def clamp_def Let_def)

lemma PulseVU_level_unavailable:
  "probe_unavailable inputs vu \<Longrightarrow> PulseVU_level smooth inputs vu = (None, vu)"
  by (auto simp: probe_unavailable_def PulseVU_level_def split: option.splits)

lemma loud_player_facts:
  "is_playing loud_player \<and> get_volume loud_player = 56 \<and> vu_width 80 = 30"
  by (simp add: is_playing_def eng_is_playing_def get_volume_def audio_get_volume_def
      loud_player_def sample_player_def sample_engine_def vu_width_def)

text \<open>
  C9 does not hold as the specification states it: playing at volume 56 with a meter 30 wide and no
  probe, the level is 16, which is not 16.8 rounded.
\<close>

theorem C9_truncation_counterexample:
  "is_playing loud_player \<and> get_volume loud_player = 56 \<and> vu_width 80 = 30 \<and>
   vu_level None loud_player 80 = 16 \<and>
   \<not> spec_rounded (vu_level None loud_player 80) (get_volume loud_player) (vu_width 80)"
  using loud_player_facts
  by (simp add: vu_level_fallback fallback_base_def clamp_def spec_rounded_def)

text \<open>
  C9, amended. When the probe is switched off, or asking it raises, or no sink input is
  VLC's, \<open>PulseVU.level\<close> returns \<open>None\<close>, and the level of the meter is then: 0 when
  nothing is playing, whatever the volume; and when playing, \<open>(volume / 100) * width\<close>
  cut towards zero (not rounded) and clamped to 0..width, which for volumes 0 to 100 is
  the integer quotient of \<open>volume * width\<close> by 100. Whatever the probe returns, the
  level is an integer between 0 and the width.
\<close>

theorem C9_vu_fallback:
  "(probe_unavailable inputs vu \<longrightarrow> PulseVU_level smooth inputs vu = (None, vu)) \<and>
   vu_level None p w =
     (if is_playing p then clamp (fallback_base (get_volume p) (vu_width w)) 0 (vu_width w)
      else 0) \<and>
   (\<not> is_playing p \<longrightarrow> vu_level None p w = 0) \<and>
   (is_playing p \<and> 0 \<le> get_volume p \<and> get_volume p \<le> 100 \<longrightarrow>
      vu_level None p w = get_volume p * vu_width w div 100) \<and>
   0 \<le> vu_level probe p w \<and> vu_level probe p w \<le> vu_width w"
proof -
  have a: "probe_unavailable inputs vu \<longrightarrow> PulseVU_level smooth inputs vu = (None, vu)"
    using PulseVU_level_unavailable by blast
  have b: "vu_level None p w =
     (if is_playing p then clamp (fallback_base (get_volume p) (vu_width w)) 0 (vu_width w)
      else 0)"
    by (rule vu_level_fallback)
  have c: "\<not> is_playing p \<longrightarrow> vu_level None p w = 0"
    by (simp add: vu_level_fallback)
  have d: "vu_level None p w = get_volume p * vu_width w div 100"
    if "is_playing p" and "0 \<le> get_volume p" and "get_volume p \<le> 100"
  proof -
    have "0 \<le> vu_width w" using vu_width_range [of w] by simp
    from fallback_base_range [OF that(2) that(3) this] that(1) show ?thesis
      by (simp add: vu_level_fallback clamp_def)
  qed
  from a b c d vu_level_range [of probe p w] show ?thesis by blast
qed

theorem C9_vu_fallback_witness:
  "probe_unavailable None no_pulse \<and>
   PulseVU_level (\<lambda>l si. Some l) None no_pulse = (None, no_pulse) \<and>
   \<not> is_playing sample_player \<and> vu_level None sample_player 80 = 0 \<and>
   is_playing loud_player \<and> 0 \<le> get_volume loud_player \<and> get_volume loud_player \<le> 100 \<and>
   vu_level None loud_player 80 = 16"
proof -
  have 1: "probe_unavailable None no_pulse"
    by (simp add: probe_unavailable_def no_pulse_def)
  have 2: "\<not> is_playing sample_player"
    by (simp add: is_playing_def eng_is_playing_def sample_player_def sample_engine_def)
  note 3 = loud_player_facts
  note t1 = C9_vu_fallback [of None no_pulse "\<lambda>l si. Some l" sample_player 80 None]
  note t2 = C9_vu_fallback [of None no_pulse "\<lambda>l si. Some l" loud_player 80 None]
  from 1 t1 have 4: "PulseVU_level (\<lambda>l si. Some l) None no_pulse = (None, no_pulse)" by blast
  from 2 t1 have 5: "vu_level None sample_player 80 = 0" by blast
  from 3 t2 have "vu_level None loud_player 80 = get_volume loud_player * vu_width 80 div 100"
    by simp
  with 3 have 6: "vu_level None loud_player 80 = 16" by simp
  from 1 2 3 4 5 6 show ?thesis by simp
qed

section \<open>Shutdown and the metadata thread\<close>

lemma stop_flag_stop: "stop_flag (stop p) = stop_flag p"
  by (simp add: stop_def split: sum.splits)

lemma now_stop: "now (stop p) = now p"
  by (simp add: stop_def split: sum.splits)

lemma shutdown_sets_flag: "stop_flag (shutdown p) \<and> now (shutdown p) = now p"
  by (simp add: shutdown_def stop_flag_stop now_stop)

lemma step_flag: "stop_flag (sys_player s) \<Longrightarrow> stop_flag (sys_player (step a s))"
  by (cases a) (auto simp: poller_step_def shutdown_sets_flag split_def Let_def split: pc.splits)

lemma step_rank:
  "stop_flag (sys_player s) \<Longrightarrow> rank (poller_pc (step a s)) + poller_steps [a] = rank (poller_pc s)
     \<or> (rank (poller_pc (step a s)) = 0 \<and> rank (poller_pc s) = 0)"
  by (cases a) (auto simp: poller_step_def split_def Let_def split: pc.splits)

lemma step_updates:
  "stop_flag (sys_player s) \<Longrightarrow>
   poller_updates (step a s) + pending (poller_pc (step a s)) \<le> poller_updates s + pending (poller_pc s)"
  by (cases a) (auto simp: poller_step_def split_def Let_def split: pc.splits poll.splits)

lemma step_updates_mono: "poller_updates s \<le> poller_updates (step a s)"
  by (cases a) (auto simp: poller_step_def split_def Let_def split: pc.splits poll.splits)

lemma step_quiet:
  "stop_flag (sys_player s) \<Longrightarrow> poller_pc s \<noteq> AtBody \<Longrightarrow>
   poller_pc (step a s) \<noteq> AtBody \<and> now (sys_player (step a s)) = now (sys_player s) \<and>
   sys_world (step a s) = sys_world s \<and> poller_updates (step a s) = poller_updates s"
  by (cases a) (auto simp: poller_step_def shutdown_sets_flag split: pc.splits)

lemma run_Cons: "run (a # acts) s = run acts (step a s)"
  by (simp add: run_def)

lemma run_flag: "stop_flag (sys_player s) \<Longrightarrow> stop_flag (sys_player (run acts s))"
  by (induction acts arbitrary: s) (simp_all add: run_def step_flag)

lemma run_updates:
  "stop_flag (sys_player s) \<Longrightarrow>
   poller_updates (run acts s) + pending (poller_pc (run acts s)) \<le> poller_updates s + pending (poller_pc s)"
proof (induction acts arbitrary: s)
  case Nil
  then show ?case by (simp add: run_def)
next
  case (Cons a acts)
  from Cons.prems have "stop_flag (sys_player (step a s))" by (rule step_flag)
  from Cons.IH [OF this] step_updates [OF Cons.prems, of a] show ?case
    by (simp add: run_Cons)
qed

lemma run_quiet:
  "stop_flag (sys_player s) \<Longrightarrow> poller_pc s \<noteq> AtBody \<Longrightarrow>
   now (sys_player (run acts s)) = now (sys_player s) \<and> sys_world (run acts s) = sys_world s \<and>
   poller_updates (run acts s) = poller_updates s"
proof (induction acts arbitrary: s)
  case Nil
  then show ?case by (simp add: run_def)
next
  case (Cons a acts)
  from step_quiet [OF Cons.prems, of a] step_flag [OF Cons.prems(1), of a]
    Cons.IH [of "step a s"]
  show ?case by (simp add: run_Cons)
qed

lemma run_rank:
  "stop_flag (sys_player s) \<Longrightarrow> rank (poller_pc (run acts s)) = rank (poller_pc s) - poller_steps acts"
proof (induction acts arbitrary: s)
  case Nil
  then show ?case by (simp add: run_def)
next
  case (Cons a acts)
  from Cons.prems have f: "stop_flag (sys_player (step a s))" by (rule step_flag)
  from Cons.IH [OF f] step_rank [OF Cons.prems, of a] show ?case
    by (cases a) (auto simp: run_Cons)
qed

lemma rank_0: "rank c = 0 \<longleftrightarrow> c = Finished"
  by (cases c) simp_all

lemma rank_le: "rank c \<le> 3"
  by (cases c) simp_all
lemma step_shutdown_pc: "poller_pc (step MainShutdown s) = poller_pc s \<and>
  poller_updates (step MainShutdown s) = poller_updates s \<and>
  now (sys_player (step MainShutdown s)) = now (sys_player s) \<and>
  stop_flag (sys_player (step MainShutdown s))"
  by (simp add: shutdown_sets_flag)

lemma shutdown_engine:
  "(\<not> eng_fails (engine p) \<longrightarrow>
      \<not> eng_playing (engine (shutdown p)) \<and> \<not> eng_fails (engine (shutdown p))) \<and>
   (eng_fails (engine p) \<longrightarrow> engine (shutdown p) = engine p)"
  by (simp add: shutdown_def stop_def eng_stop_def)

lemma step_stopped:
  "\<not> eng_fails (engine (sys_player s)) \<Longrightarrow> \<not> eng_playing (engine (sys_player s)) \<Longrightarrow>
   \<not> eng_fails (engine (sys_player (step a s))) \<and> \<not> eng_playing (engine (sys_player (step a s)))"
  by (cases a)
     (auto simp: poller_step_def shutdown_engine split_def Let_def split: pc.splits)

lemma run_stopped:
  "\<not> eng_fails (engine (sys_player s)) \<Longrightarrow> \<not> eng_playing (engine (sys_player s)) \<Longrightarrow>
   \<not> eng_playing (engine (sys_player (run acts s)))"
proof (induction acts arbitrary: s)
  case Nil
  then show ?case by (simp add: run_def)
next
  case (Cons a acts)
  from step_stopped [OF Cons.prems, of a] Cons.IH [of "step a s"] show ?case
    by (simp add: run_Cons)
qed

text \<open>
  C4, amended. \<open>shutdown\<close> sets the stop flag and asks the engine to stop: playback is
  stopped, and stays stopped, unless that call raises, which \<open>shutdown\<close> swallows,
  leaving the engine as it was. It does not move the metadata thread and does not wait
  for it. Once it has returned, the flag stays set, and under every schedule: the
  thread makes at most one more \<open>update_line\<close> call; it makes none, and the now-playing
  state stays as it is, unless the thread was past its test of the flag when
  \<open>shutdown\<close> was called; and after three steps of its own the thread has returned
  from its loop.
\<close>

theorem C4_shutdown:
  "stop_flag (sys_player (step MainShutdown s)) \<and>
   (\<not> eng_fails (engine (sys_player s)) \<longrightarrow>
      \<not> eng_playing (engine (sys_player (step MainShutdown s))) \<and>
      \<not> eng_playing (engine (sys_player (run acts (step MainShutdown s))))) \<and>
   (eng_fails (engine (sys_player s)) \<longrightarrow>
      engine (sys_player (step MainShutdown s)) = engine (sys_player s)) \<and>
   poller_pc (step MainShutdown s) = poller_pc s \<and>
   stop_flag (sys_player (run acts (step MainShutdown s))) \<and>
   poller_updates (run acts (step MainShutdown s)) \<le> poller_updates s + 1 \<and>
   (poller_pc s \<noteq> AtBody \<longrightarrow>
      now (sys_player (run acts (step MainShutdown s))) = now (sys_player s) \<and>
      poller_updates (run acts (step MainShutdown s)) = poller_updates s) \<and>
   (3 \<le> poller_steps acts \<longrightarrow> poller_pc (run acts (step MainShutdown s)) = Finished)"
proof -
  let ?s1 = "step MainShutdown s"
  note sd = step_shutdown_pc [of s]
  from sd have f: "stop_flag (sys_player ?s1)" by simp
  have a: "stop_flag (sys_player (run acts ?s1))" using f by (rule run_flag)
  have "pending (poller_pc ?s1) \<le> 1" by (cases "poller_pc ?s1") simp_all
  with run_updates [OF f, of acts] sd
  have b: "poller_updates (run acts ?s1) \<le> poller_updates s + 1" by simp
  have c: "now (sys_player (run acts ?s1)) = now (sys_player s) \<and>
      poller_updates (run acts ?s1) = poller_updates s" if "poller_pc s \<noteq> AtBody"
    using run_quiet [OF f, of acts] that sd by simp
  have d: "poller_pc (run acts ?s1) = Finished" if "3 \<le> poller_steps acts"
  proof -
    from run_rank [OF f, of acts] rank_le [of "poller_pc ?s1"] that
    have "rank (poller_pc (run acts ?s1)) = 0" by simp
    then show ?thesis by (simp add: rank_0)
  qed
  have e: "\<not> eng_playing (engine (sys_player ?s1)) \<and>
      \<not> eng_playing (engine (sys_player (run acts ?s1)))"
    if "\<not> eng_fails (engine (sys_player s))"
  proof -
    from that shutdown_engine [of "sys_player s"]
    have "\<not> eng_fails (engine (sys_player ?s1)) \<and> \<not> eng_playing (engine (sys_player ?s1))"
      by simp
    with run_stopped [of ?s1 acts] show ?thesis by blast
  qed
  have g: "engine (sys_player ?s1) = engine (sys_player s)"
    if "eng_fails (engine (sys_player s))"
    using that shutdown_engine [of "sys_player s"] by simp
  from sd a b c d e g show ?thesis by blast
qed

lemma late_line: "resolve_line late_meta = str ''Song'' \<and> strip (str ''Song'') = str ''Song'' \<and>
   str ''Song'' \<noteq> [] \<and> str ''Song'' \<noteq> [EM_DASH]"
  by (simp add: resolve_line_def late_meta_def or_empty_def Let_def strip_def isspace_def str_def)

text \<open>
  C4 does not hold as the specification states it: the thread tests the flag, then \<open>shutdown\<close> runs
  and returns while the thread is still inside its loop, and then the thread writes a
  new line into the now-playing state.
\<close>

theorem C4_late_write_counterexample:
  "stop_flag (sys_player (run [Poller NoMedia, MainShutdown] system0)) \<and>
   poller_pc (run [Poller NoMedia, MainShutdown] system0) = AtBody \<and>
   line (now (sys_player (run [Poller NoMedia, MainShutdown] system0))) = [EM_DASH] \<and>
   history (now (sys_player (run [Poller NoMedia, MainShutdown] system0))) = [] \<and>
   line (now (sys_player (run [Poller NoMedia, MainShutdown, Poller (Media late_meta)] system0))) =
     str ''Song'' \<and>
   history (now (sys_player (run [Poller NoMedia, MainShutdown, Poller (Media late_meta)] system0))) =
     [str ''Song'']"
  using late_line
  by (simp add: run_def system0_def Player_init_def poller_step_def shutdown_def stop_def
      eng_stop_def sample_player_def sample_engine_def meta_tick_def update_line_def Let_def
      or_empty_def NowPlaying_init_def)

theorem C4_shutdown_witness:
  "poller_pc system0 \<noteq> AtBody \<and>
   3 \<le> poller_steps [Poller (Media late_meta), Poller (Media late_meta), Poller (Media late_meta)] \<and>
   now (sys_player (run [Poller (Media late_meta), Poller (Media late_meta), Poller (Media late_meta)]
     (step MainShutdown system0))) = now (sys_player system0) \<and>
   poller_pc (run [Poller (Media late_meta), Poller (Media late_meta), Poller (Media late_meta)]
     (step MainShutdown system0)) = Finished \<and>
   \<not> eng_fails (engine (sys_player loud_system)) \<and>
   eng_playing (engine (sys_player loud_system)) \<and>
   \<not> eng_playing (engine (sys_player (step MainShutdown loud_system))) \<and>
   eng_fails (engine (sys_player dead_system)) \<and>
   engine (sys_player (step MainShutdown dead_system)) = engine (sys_player dead_system)"
proof -
  have 1: "poller_pc system0 \<noteq> AtBody" by (simp add: system0_def Player_init_def)
  have 2: "3 \<le> poller_steps [Poller (Media late_meta), Poller (Media late_meta), Poller (Media late_meta)]"
    by simp
  have 3: "\<not> eng_fails (engine (sys_player loud_system)) \<and>
      eng_playing (engine (sys_player loud_system))"
    by (simp add: loud_system_def Player_init_def loud_player_def sample_engine_def)
  have 4: "eng_fails (engine (sys_player dead_system))"
    by (simp add: dead_system_def Player_init_def dead_player_def)
  from 1 2 C4_shutdown [of system0
      "[Poller (Media late_meta), Poller (Media late_meta), Poller (Media late_meta)]"]
  have 5: "now (sys_player (run [Poller (Media late_meta), Poller (Media late_meta),
        Poller (Media late_meta)] (step MainShutdown system0))) = now (sys_player system0) \<and>
      poller_pc (run [Poller (Media late_meta), Poller (Media late_meta), Poller (Media late_meta)]
        (step MainShutdown system0)) = Finished"
    by blast
  from 3 C4_shutdown [of loud_system "[]"]
  have 6: "\<not> eng_playing (engine (sys_player (step MainShutdown loud_system)))" by blast
  from 4 C4_shutdown [of dead_system "[]"]
  have 7: "engine (sys_player (step MainShutdown dead_system)) = engine (sys_player dead_system)"
    by blast
  from 1 2 3 4 5 6 7 show ?thesis by simp
qed

end
